theory Spec2Isabelle
  imports Complex_Main
begin

section \<open>The observation table\<close>

text \<open>
  A row of the data frame that \<^verbatim>\<open>src/script/metrics.py\<close> reads has the five columns of
  \<^verbatim>\<open>column_map\<close>. The columns \<^verbatim>\<open>time\<close> and \<^verbatim>\<open>individual\<close> are never null in the input
  (section 3 of the specification), so they are plain values; \<^verbatim>\<open>group\<close>, \<^verbatim>\<open>gcolor\<close> and
  \<^verbatim>\<open>icolor\<close> may be null, and \<open>None\<close> is pandas' missing value NaN. Times are integers
  (of a size that a float holds exactly, as pandas turns a row into floats when a column
  has a null), identifiers of individuals, groups and colors are natural numbers. The data frame is
  the list of its rows, in table order.

  Python floats are modelled as exact rationals: every float the module computes is a
  quotient of two small counts or an average of such quotients. pandas' NaN result of
  \<^verbatim>\<open>mean\<close> is modelled as \<open>None\<close> where it can occur (\<^verbatim>\<open>group_size\<close>).
\<close>

record obs =
  time :: int
  group :: "nat option"
  individual :: nat
  gcolor :: "nat option"
  icolor :: "nat option"

type_synonym table = "obs list"

datatype error = KeyError | ZeroDivisionError | StopIteration | ValueError

section \<open>pandas and Python primitives\<close>

text \<open>
  \<^verbatim>\<open>a != b\<close> and \<^verbatim>\<open>a == b\<close> on two cell values. A null cell is NaN, and NaN differs from
  every value, itself included. pandas' element-wise comparison of two columns
  (\<^verbatim>\<open>df['gcolor'] == df['icolor']\<close>, \<^verbatim>\<open>colors.shift() != colors\<close>) treats nulls the same way.
\<close>

definition py_ne :: "'a option \<Rightarrow> 'a option \<Rightarrow> bool" where
  "py_ne a b = (case a of None \<Rightarrow> True | Some x \<Rightarrow> (case b of None \<Rightarrow> True | Some y \<Rightarrow> x \<noteq> y))"

definition py_eq :: "'a option \<Rightarrow> 'a option \<Rightarrow> bool" where
  "py_eq a b = (case a of None \<Rightarrow> False | Some x \<Rightarrow> (case b of None \<Rightarrow> False | Some y \<Rightarrow> x = y))"

text \<open>\<^verbatim>\<open>pd.notna\<close> on a cell, and on a whole row as \<^verbatim>\<open>dropna\<close> tests it (every column;
  \<^verbatim>\<open>time\<close> and \<^verbatim>\<open>individual\<close> are never null).\<close>

definition notna :: "'a option \<Rightarrow> bool" where
  "notna a = (case a of None \<Rightarrow> False | Some x \<Rightarrow> True)"

definition notna_row :: "obs \<Rightarrow> bool" where
  "notna_row r = (notna (group r) \<and> notna (gcolor r) \<and> notna (icolor r))"

definition dropna :: "table \<Rightarrow> table" where
  "dropna df = filter notna_row df"

text \<open>The non-null values of a column, in order.\<close>

fun values_notna :: "'a option list \<Rightarrow> 'a list" where
  "values_notna [] = []"
| "values_notna (None # xs) = values_notna xs"
| "values_notna (Some x # xs) = x # values_notna xs"

text \<open>\<^verbatim>\<open>Series.unique()\<close>: the distinct values in order of first appearance.\<close>

fun unique :: "'a list \<Rightarrow> 'a list \<Rightarrow> 'a list" where
  "unique seen [] = seen"
| "unique seen (x # xs) = unique (if x \<in> set seen then seen else seen @ [x]) xs"

text \<open>
  \<^verbatim>\<open>df.groupby('individual')\<close>, iterated: pandas sorts the group keys (\<^verbatim>\<open>sort=True\<close> is
  the default), and each group holds the rows of its key in table order.
\<close>

definition group_keys :: "table \<Rightarrow> nat list" where
  "group_keys df = sort (remdups (map individual df))"

definition rows_of :: "table \<Rightarrow> nat \<Rightarrow> obs list" where
  "rows_of df i = filter (\<lambda>r. individual r = i) df"

definition groupby_individual :: "table \<Rightarrow> obs list list" where
  "groupby_individual df = map (rows_of df) (group_keys df)"

text \<open>\<^verbatim>\<open>avg\<close> (line 22): the average of a list, \<open>0.0\<close> when it is empty.\<close>

definition avg :: "rat list \<Rightarrow> rat" where
  "avg items = (if length items = 0 then 0 else sum_list items / of_nat (length items))"

text \<open>Python's \<^verbatim>\<open>float(a) / n\<close> with an integer \<open>n\<close>: it raises when \<open>n\<close> is zero.\<close>

definition float_div :: "nat \<Rightarrow> nat \<Rightarrow> error + rat" where
  "float_div a n = (if n = 0 then Inl ZeroDivisionError else Inr (of_nat a / of_nat n))"

text \<open>A dictionary lookup \<^verbatim>\<open>d[k]\<close>: it raises \<^verbatim>\<open>KeyError\<close> when the key is missing.\<close>

definition getitem :: "('k \<rightharpoonup> 'v) \<Rightarrow> 'k \<Rightarrow> error + 'v" where
  "getitem d k = (case d k of None \<Rightarrow> Inl KeyError | Some v \<Rightarrow> Inr v)"

text \<open>
  A loop that appends one computed value per item: the first item whose computation
  raises ends the loop with that error.
\<close>

fun for_each :: "('a \<Rightarrow> error + 'b) \<Rightarrow> 'a list \<Rightarrow> error + 'b list" where
  "for_each f [] = Inr []"
| "for_each f (x # xs) =
     (case f x of
        Inl e \<Rightarrow> Inl e
      | Inr y \<Rightarrow> (case for_each f xs of Inl e \<Rightarrow> Inl e | Inr ys \<Rightarrow> Inr (y # ys)))"

section \<open>The metrics\<close>

subsection \<open>absenteeism (line 26)\<close>

text \<open>
  \<^verbatim>\<open>time_gcolors\<close> maps a time to the set of non-null group colors seen at that time; a
  time all of whose rows have a null \<^verbatim>\<open>gcolor\<close> has no entry. The row loop looks the
  time up before it tests the row, and \<^verbatim>\<open>my_color in gcolors\<close> is false for a null color.
\<close>

definition time_gcolors :: "table \<Rightarrow> (int \<rightharpoonup> nat set)" where
  "time_gcolors df t =
     (let cs = values_notna (map gcolor (filter (\<lambda>r. time r = t) df))
      in if cs = [] then None else Some (set cs))"

fun absent_loop :: "(int \<rightharpoonup> nat set) \<Rightarrow> obs list \<Rightarrow> nat \<Rightarrow> error + nat" where
  "absent_loop tg [] num_absent = Inr num_absent"
| "absent_loop tg (row # rest) num_absent =
     (case getitem tg (time row) of
        Inl e \<Rightarrow> Inl e
      | Inr gcolors \<Rightarrow>
          absent_loop tg rest
            (if py_ne (gcolor row) (icolor row) \<and>
                (case icolor row of None \<Rightarrow> False | Some c \<Rightarrow> c \<in> gcolors)
             then num_absent + 1 else num_absent))"

definition absenteeism_value :: "(int \<rightharpoonup> nat set) \<Rightarrow> obs list \<Rightarrow> error + rat" where
  "absenteeism_value tg grp =
     (case absent_loop tg grp 0 of
        Inl e \<Rightarrow> Inl e
      | Inr num_absent \<Rightarrow> float_div num_absent (length grp))"

definition absenteeism :: "table \<Rightarrow> error + rat list" where
  "absenteeism df = for_each (absenteeism_value (time_gcolors df)) (groupby_individual df)"

subsection \<open>inquisitiveness (line 46)\<close>

fun visit_loop :: "obs list \<Rightarrow> nat \<Rightarrow> nat" where
  "visit_loop [] num_visit = num_visit"
| "visit_loop (row # rest) num_visit =
     visit_loop rest
       (if py_ne (gcolor row) (icolor row) \<and> notna (gcolor row)
        then num_visit + 1 else num_visit)"

definition inquisitiveness_value :: "obs list \<Rightarrow> error + rat" where
  "inquisitiveness_value grp = float_div (visit_loop grp 0) (length (dropna grp))"

definition inquisitiveness :: "table \<Rightarrow> error + rat list" where
  "inquisitiveness df = for_each inquisitiveness_value (groupby_individual df)"

subsection \<open>community\_stay (line 60)\<close>

text \<open>
  The loop over \<^verbatim>\<open>range(1, len(my_colors))\<close> carries the list \<^verbatim>\<open>xs\<close> of run lengths and
  the \<^verbatim>\<open>offset\<close> of the current run; the last run is appended after the loop.
\<close>

definition stay_step :: "nat option list \<Rightarrow> nat \<Rightarrow> nat list \<times> nat \<Rightarrow> nat list \<times> nat" where
  "stay_step my_colors i st =
     (case st of (xs, offset) \<Rightarrow>
        if py_eq (my_colors ! i) (my_colors ! (i - 1)) then (xs, offset)
        else (xs @ [i - offset], i))"

definition stay_runs :: "nat option list \<Rightarrow> nat list" where
  "stay_runs my_colors =
     (case fold (stay_step my_colors) [1..<length my_colors] ([], 0) of
        (xs, offset) \<Rightarrow> xs @ [length my_colors - offset])"

definition community_stay_value :: "obs list \<Rightarrow> rat" where
  "community_stay_value grp =
     (let my_colors = map icolor grp
      in if length my_colors = 0 then 0 else avg (map of_nat (stay_runs my_colors)))"

definition community_stay :: "table \<Rightarrow> rat list" where
  "community_stay df = map community_stay_value (groupby_individual df)"

subsection \<open>The subgroup index (line 80)\<close>

text \<open>
  \<^verbatim>\<open>compute_subgroups\<close> reads the rows that \<^verbatim>\<open>df.dropna()\<close> keeps and files each individual
  under the key (time, group, icolor) of its row. A key is a tuple of cell values, so its
  group and color components are optional; the keys that \<^verbatim>\<open>compute_subgroups\<close> stores are
  never null, and a lookup with a null component finds nothing.
\<close>

type_synonym subgroups = "(int \<times> nat option \<times> nat option) \<rightharpoonup> nat set"

definition add_member :: "obs \<Rightarrow> subgroups \<Rightarrow> subgroups" where
  "add_member row community_subgroups =
     (let k = (time row, group row, icolor row)
      in case community_subgroups k of
           Some s \<Rightarrow> community_subgroups(k \<mapsto> insert (individual row) s)
         | None \<Rightarrow> community_subgroups(k \<mapsto> {individual row}))"

definition compute_subgroups :: "table \<Rightarrow> subgroups" where
  "compute_subgroups df = fold add_member (dropna df) Map.empty"

subsection \<open>avg\_num\_peers (line 92)\<close>

definition num_peers :: "subgroups \<Rightarrow> obs \<Rightarrow> error + rat" where
  "num_peers community_subgroups row =
     (case getitem community_subgroups (time row, group row, icolor row) of
        Inl e \<Rightarrow> Inl e
      | Inr s \<Rightarrow> Inr (of_nat (card s) - 1))"

definition avg_num_peers_value :: "subgroups \<Rightarrow> obs list \<Rightarrow> error + rat" where
  "avg_num_peers_value community_subgroups grp =
     (case for_each (num_peers community_subgroups) (dropna grp) of
        Inl e \<Rightarrow> Inl e
      | Inr xs \<Rightarrow> Inr (avg xs))"

definition avg_num_peers :: "table \<Rightarrow> subgroups \<Rightarrow> error + rat list" where
  "avg_num_peers df community_subgroups =
     for_each (avg_num_peers_value community_subgroups) (groupby_individual df)"

subsection \<open>peer\_synchrony (line 106) and adjacent\_pairs (line 14)\<close>

text \<open>
  \<^verbatim>\<open>adjacent_pairs\<close> takes the first item with \<^verbatim>\<open>next(it)\<close>, which raises on an empty
  input; \<^verbatim>\<open>groupby\<close> never yields an empty group, so \<^verbatim>\<open>peer_synchrony\<close> does not reach that
  case.
\<close>

fun pairs_from :: "'a \<Rightarrow> 'a list \<Rightarrow> ('a \<times> 'a) list" where
  "pairs_from prv [] = []"
| "pairs_from prv (cur # rest) = (prv, cur) # pairs_from cur rest"

fun adjacent_pairs :: "'a list \<Rightarrow> error + ('a \<times> 'a) list" where
  "adjacent_pairs [] = Inl StopIteration"
| "adjacent_pairs (prv # rest) = Inr (pairs_from prv rest)"

definition isnull :: "'a option \<Rightarrow> bool" where
  "isnull a = (case a of None \<Rightarrow> True | Some x \<Rightarrow> False)"

definition pair_value :: "subgroups \<Rightarrow> obs \<times> obs \<Rightarrow> error + rat" where
  "pair_value community_subgroups p =
     (case p of (prev_row, curr_row) \<Rightarrow>
        if isnull (group prev_row) \<or> isnull (group curr_row) then Inr 0
        else
          (case getitem community_subgroups (time prev_row, group prev_row, icolor prev_row) of
             Inl e \<Rightarrow> Inl e
           | Inr members1 \<Rightarrow>
               (case getitem community_subgroups (time curr_row, group curr_row, icolor curr_row) of
                  Inl e \<Rightarrow> Inl e
                | Inr members2 \<Rightarrow>
                    Inr (if card members2 = 1 then 0
                         else (of_nat (card (members1 \<inter> members2)) - 1) /
                              (of_nat (card members2) - 1)))))"

definition peer_synchrony_value :: "subgroups \<Rightarrow> obs list \<Rightarrow> error + rat" where
  "peer_synchrony_value community_subgroups grp =
     (case adjacent_pairs grp of
        Inl e \<Rightarrow> Inl e
      | Inr ps \<Rightarrow>
          (case for_each (pair_value community_subgroups) ps of
             Inl e \<Rightarrow> Inl e
           | Inr xs \<Rightarrow> Inr (avg xs)))"

definition peer_synchrony :: "table \<Rightarrow> subgroups \<Rightarrow> error + rat list" where
  "peer_synchrony df community_subgroups =
     for_each (peer_synchrony_value community_subgroups) (groupby_individual df)"

subsection \<open>group\_size (line 125)\<close>

text \<open>
  The dictionary counts, per (time, group), the rows that \<^verbatim>\<open>df.dropna()\<close> keeps. The
  column \<^verbatim>\<open>group_size\<close> of the intermediate frame has the looked-up count on the rows that
  \<^verbatim>\<open>dropna\<close> keeps and NaN on the others (the two columns are aligned on the row labels).
  \<^verbatim>\<open>mean\<close> of a group skips NaN and is NaN when nothing is left.

  When \<^verbatim>\<open>df.dropna()\<close> keeps no row at all (no row is free of nulls, or the table is empty),
  \<^verbatim>\<open>apply(..., 1)\<close> never calls the lookup and returns an empty frame instead of a column,
  and \<^verbatim>\<open>pd.DataFrame(d)\<close> raises \<^verbatim>\<open>ValueError\<close>.
\<close>

definition group_size_index :: "table \<Rightarrow> ((int \<times> nat option) \<rightharpoonup> nat)" where
  "group_size_index df k =
     (let n = length (filter (\<lambda>r. (time r, group r) = k) (dropna df))
      in if n = 0 then None else Some n)"

definition group_size_cell :: "((int \<times> nat option) \<rightharpoonup> nat) \<Rightarrow> obs \<Rightarrow> error + rat option" where
  "group_size_cell idx x =
     (if notna_row x
      then (case getitem idx (time x, group x) of Inl e \<Rightarrow> Inl e | Inr n \<Rightarrow> Inr (Some (of_nat n)))
      else Inr None)"

definition mean_skipna :: "rat option list \<Rightarrow> rat option" where
  "mean_skipna cells =
     (let vs = values_notna cells
      in if vs = [] then None else Some (sum_list vs / of_nat (length vs)))"

definition group_size :: "table \<Rightarrow> error + rat option list" where
  "group_size df =
     (if dropna df = [] then Inl ValueError
      else
        (case for_each (group_size_cell (group_size_index df)) df of
           Inl e \<Rightarrow> Inl e
         | Inr cells \<Rightarrow>
             Inr (map (\<lambda>i. mean_skipna (map snd (filter (\<lambda>(j, c). j = i) (zip (map individual df) cells))))
                    (group_keys df))))"

subsection \<open>group\_homogeneity (line 133)\<close>

text \<open>
  The column \<^verbatim>\<open>homogeneity\<close> is \<open>1.0\<close> where the two colors are equal and \<open>0.0\<close>
  elsewhere, also where a color is null: it is never null itself, so the \<^verbatim>\<open>dropna\<close> of the
  three-column frame drops exactly the rows with a null group.
\<close>

definition homogeneity :: "obs \<Rightarrow> rat" where
  "homogeneity r = (if py_eq (gcolor r) (icolor r) then 1 else 0)"

definition homogeneity_index :: "table \<Rightarrow> ((int \<times> nat option) \<rightharpoonup> rat)" where
  "homogeneity_index df k =
     (let hs = map homogeneity (filter (\<lambda>r. (time r, group r) = k \<and> notna (group r)) df)
      in if hs = [] then None else Some (sum_list hs / of_nat (length hs)))"

definition group_homogeneity_value :: "((int \<times> nat option) \<rightharpoonup> rat) \<Rightarrow> obs list \<Rightarrow> error + rat" where
  "group_homogeneity_value h grp =
     (case for_each (\<lambda>row. getitem h (time row, group row)) (dropna grp) of
        Inl e \<Rightarrow> Inl e
      | Inr xs \<Rightarrow> Inr (avg xs))"

definition group_homogeneity :: "table \<Rightarrow> error + rat list" where
  "group_homogeneity df =
     for_each (group_homogeneity_value (homogeneity_index df)) (groupby_individual df)"

subsection \<open>individual\_apparency (line 145)\<close>

text \<open>
  \<^verbatim>\<open>time_index\<close> numbers the distinct times in order of first appearance. The dictionary
  \<^verbatim>\<open>community_apparency\<close> has one entry per group of \<^verbatim>\<open>df.groupby('icolor')\<close>, which has
  no group for the null color. \<^verbatim>\<open>max\<close> and \<^verbatim>\<open>min\<close> run over the times of a group, which
  is never empty. \<^verbatim>\<open>set(group['icolor'].values)\<close> holds the distinct cells of the
  individual, the null one included, and every one of them is looked up.
\<close>

fun index_of :: "'a list \<Rightarrow> 'a \<Rightarrow> nat option" where
  "index_of [] t = None"
| "index_of (x # xs) t = (if x = t then Some 0 else map_option Suc (index_of xs t))"

definition time_index :: "table \<Rightarrow> (int \<rightharpoonup> nat)" where
  "time_index df = index_of (unique [] (map time df))"

definition diff :: "(int \<rightharpoonup> nat) \<Rightarrow> int \<Rightarrow> int \<Rightarrow> error + int" where
  "diff ti t2 t1 =
     (case getitem ti t2 of
        Inl e \<Rightarrow> Inl e
      | Inr i2 \<Rightarrow> (case getitem ti t1 of Inl e \<Rightarrow> Inl e | Inr i1 \<Rightarrow> Inr (int i2 - int i1 + 1)))"

definition py_max :: "int list \<Rightarrow> int" where
  "py_max ts = fold max (tl ts) (hd ts)"

definition py_min :: "int list \<Rightarrow> int" where
  "py_min ts = fold min (tl ts) (hd ts)"

definition times_of_color :: "table \<Rightarrow> nat \<Rightarrow> int list" where
  "times_of_color df ic = map time (filter (\<lambda>r. icolor r = Some ic) df)"

definition community_apparency :: "table \<Rightarrow> error + (nat option \<rightharpoonup> int)" where
  "community_apparency df =
     (case for_each
             (\<lambda>ic. case diff (time_index df) (py_max (times_of_color df ic)) (py_min (times_of_color df ic)) of
                     Inl e \<Rightarrow> Inl e
                   | Inr d \<Rightarrow> Inr (Some ic, d))
             (sort (remdups (values_notna (map icolor df)))) of
        Inl e \<Rightarrow> Inl e
      | Inr kvs \<Rightarrow> Inr (map_of kvs))"

definition individual_apparency_value :: "(nat option \<rightharpoonup> int) \<Rightarrow> obs list \<Rightarrow> error + rat" where
  "individual_apparency_value ca grp =
     (case for_each (getitem ca) (remdups (map icolor grp)) of
        Inl e \<Rightarrow> Inl e
      | Inr ds \<Rightarrow> Inr (avg (map of_int ds)))"

definition individual_apparency :: "table \<Rightarrow> error + rat list" where
  "individual_apparency df =
     (case community_apparency df of
        Inl e \<Rightarrow> Inl e
      | Inr ca \<Rightarrow> for_each (individual_apparency_value ca) (groupby_individual df))"

subsection \<open>cyclicity (line 157)\<close>

text \<open>
  \<^verbatim>\<open>colors.shift()\<close> moves every color one row down and puts a null first. The mask
  \<^verbatim>\<open>colors.shift() != colors\<close> keeps the rows that differ from the row before;
  \<^verbatim>\<open>count()\<close> counts the non-null cells kept, \<^verbatim>\<open>nunique()\<close> the distinct non-null colors.
\<close>

definition shift :: "'a option list \<Rightarrow> 'a option list" where
  "shift colors = (case colors of [] \<Rightarrow> [] | c # cs \<Rightarrow> None # butlast colors)"

definition consecutive_uniques :: "nat option list \<Rightarrow> nat option list" where
  "consecutive_uniques colors =
     map snd (filter (\<lambda>(s, c). py_ne s c) (zip (shift colors) colors))"

definition nunique :: "nat option list \<Rightarrow> nat" where
  "nunique colors = length (remdups (values_notna colors))"

definition cyclicity_value :: "obs list \<Rightarrow> int" where
  "cyclicity_value grp =
     (let colors = map icolor grp
      in int (length (values_notna (consecutive_uniques colors))) - int (nunique colors))"

definition cyclicity :: "table \<Rightarrow> int list" where
  "cyclicity df = map cyclicity_value (groupby_individual df)"

subsection \<open>community\_size (line 166)\<close>

text \<open>
  \<^verbatim>\<open>size\<close> counts the rows per (time, icolor); \<^verbatim>\<open>groupby\<close> leaves out the rows with a null
  color, so no key has one. The loop looks up every row of the individual. (Line 169
  computes a \<^verbatim>\<open>value\<close> that nothing reads.)
\<close>

definition community_size_index :: "table \<Rightarrow> ((int \<times> nat option) \<rightharpoonup> nat)" where
  "community_size_index df k =
     (let n = length (filter (\<lambda>r. (time r, icolor r) = k \<and> notna (icolor r)) df)
      in if n = 0 then None else Some n)"

definition community_size_value :: "((int \<times> nat option) \<rightharpoonup> nat) \<Rightarrow> obs list \<Rightarrow> error + rat" where
  "community_size_value sizes grp =
     (case for_each (\<lambda>row. getitem sizes (time row, icolor row)) grp of
        Inl e \<Rightarrow> Inl e
      | Inr xs \<Rightarrow> Inr (avg (map of_nat xs)))"

definition community_size :: "table \<Rightarrow> error + rat list" where
  "community_size df =
     for_each (community_size_value (community_size_index df)) (groupby_individual df)"

subsection \<open>compute\_individual\_metrics (line 180)\<close>

text \<open>
  The result frame has the column of distinct individuals, in order of first appearance,
  and the ten metric columns, each as its function returned it. The metrics run in the
  order of the source, and the first one that raises ends the run.
\<close>

record metrics =
  col_individual :: "nat list"
  col_absenteeism :: "rat list"
  col_inquisitiveness :: "rat list"
  col_community_stay :: "rat list"
  col_avg_num_peers :: "rat list"
  col_peer_synchrony :: "rat list"
  col_group_size :: "rat option list"
  col_group_homogeneity :: "rat list"
  col_individual_apparency :: "rat list"
  col_cyclicity :: "int list"
  col_community_size :: "rat list"

definition compute_individual_metrics :: "table \<Rightarrow> error + metrics" where
  "compute_individual_metrics df =
     (let community_subgroups = compute_subgroups df in
      case absenteeism df of Inl e \<Rightarrow> Inl e | Inr c1 \<Rightarrow>
      case inquisitiveness df of Inl e \<Rightarrow> Inl e | Inr c2 \<Rightarrow>
      case avg_num_peers df community_subgroups of Inl e \<Rightarrow> Inl e | Inr c4 \<Rightarrow>
      case peer_synchrony df community_subgroups of Inl e \<Rightarrow> Inl e | Inr c5 \<Rightarrow>
      case group_size df of Inl e \<Rightarrow> Inl e | Inr c6 \<Rightarrow>
      case group_homogeneity df of Inl e \<Rightarrow> Inl e | Inr c7 \<Rightarrow>
      case individual_apparency df of Inl e \<Rightarrow> Inl e | Inr c8 \<Rightarrow>
      case community_size df of Inl e \<Rightarrow> Inl e | Inr c10 \<Rightarrow>
        Inr \<lparr>col_individual = unique [] (map individual df),
             col_absenteeism = c1,
             col_inquisitiveness = c2,
             col_community_stay = community_stay df,
             col_avg_num_peers = c4,
             col_peer_synchrony = c5,
             col_group_size = c6,
             col_group_homogeneity = c7,
             col_individual_apparency = c8,
             col_cyclicity = cyclicity df,
             col_community_size = c10\<rparr>)"

section \<open>The claimed metrics, in the words of the specification\<close>

text \<open>
  The definitions of this section are not taken from the code. They state what the
  specification says a metric is, or name the quantities the theorems talk about, so that
  the code can be compared with them.
\<close>

text \<open>The rows of a (time, group), over the whole table and over the rows without nulls.\<close>

definition members :: "table \<Rightarrow> int \<Rightarrow> nat option \<Rightarrow> obs list" where
  "members df t g = filter (\<lambda>r. time r = t \<and> group r = g) df"

definition complete_members :: "table \<Rightarrow> int \<Rightarrow> nat option \<Rightarrow> obs list" where
  "complete_members df t g = filter (\<lambda>r. time r = t \<and> group r = g) (dropna df)"

text \<open>
  Section 4.3: the rows with a non-null community color are the denominator, those of
  them whose community color differs from the group's dominant color the numerator;
  \<open>0.0\<close> when the denominator is zero.
\<close>

definition spec_inquisitiveness :: "obs list \<Rightarrow> rat" where
  "spec_inquisitiveness grp =
     (let denominator = length (filter (\<lambda>r. notna (icolor r)) grp);
          visiting = length (filter (\<lambda>r. notna (icolor r) \<and> icolor r \<noteq> gcolor r) grp)
      in if denominator = 0 then 0 else of_nat visiting / of_nat denominator)"


text \<open>
  Section 4.7: the mean, over the observations with a non-null group, of the number of
  rows of that (time, group) in the whole table; \<open>0.0\<close> if there is none.
\<close>

definition spec_group_size :: "table \<Rightarrow> obs list \<Rightarrow> rat" where
  "spec_group_size df grp =
     avg (map (\<lambda>r. of_nat (length (members df (time r) (group r))))
              (filter (\<lambda>r. notna (group r)) grp))"

text \<open>The cell of the column \<^verbatim>\<open>group_size\<close> on a row, as a function of the row.\<close>

definition size_cell :: "table \<Rightarrow> obs \<Rightarrow> rat option" where
  "size_cell df r =
     (if notna_row r then Some (of_nat (length (complete_members df (time r) (group r)))) else None)"

text \<open>
  Two counts over a color sequence, given the cell before it: the cells that differ from
  their predecessor (every one of them ends a run of \<^verbatim>\<open>community_stay\<close>), and the non-null
  cells that differ from their predecessor (every one of them starts a run of a color).
\<close>

fun run_breaks :: "'a option \<Rightarrow> 'a option list \<Rightarrow> nat" where
  "run_breaks p [] = 0"
| "run_breaks p (c # cs) = (if py_eq c p then 0 else 1) + run_breaks c cs"

fun color_starts :: "'a option \<Rightarrow> 'a option list \<Rightarrow> nat" where
  "color_starts p [] = 0"
| "color_starts p (c # cs) = (if py_ne p c \<and> notna c then 1 else 0) + color_starts c cs"

text \<open>
  The entry of the code's index for the key of a row: the individuals of the rows free of
  nulls that share its time, group and community color. (The Subgroup of section 3 of the
  specification asks only for a non-null group and community color; the index also leaves
  out the rows with a null \<^verbatim>\<open>gcolor\<close>.) The contribution of an adjacent pair of rows, as
  in section 4.6, is stated with these sets.
\<close>

definition subgroup_of :: "table \<Rightarrow> obs \<Rightarrow> nat set" where
  "subgroup_of df r =
     set (map individual
            (filter (\<lambda>m. notna_row m \<and> (time m, group m, icolor m) = (time r, group r, icolor r)) df))"

definition pair_contribution :: "table \<Rightarrow> obs \<times> obs \<Rightarrow> rat" where
  "pair_contribution df p =
     (case p of (r1, r2) \<Rightarrow>
        if isnull (group r1) \<or> isnull (group r2) then 0
        else if card (subgroup_of df r2) = 1 then 0
        else (of_nat (card (subgroup_of df r1 \<inter> subgroup_of df r2)) - 1)
             / (of_nat (card (subgroup_of df r2)) - 1))"

text \<open>
  Section 4.9: the rank of a time is its position among the distinct times in order of
  first occurrence; the duration of a color is the rank of its last time minus the rank of
  its first time, plus one.
\<close>

definition time_rank :: "table \<Rightarrow> int \<Rightarrow> int" where
  "time_rank df t = (case time_index df t of None \<Rightarrow> 0 | Some n \<Rightarrow> int n)"

definition color_duration :: "table \<Rightarrow> nat \<Rightarrow> int" where
  "color_duration df c =
     time_rank df (Max (set (times_of_color df c))) - time_rank df (Min (set (times_of_color df c))) + 1"

section \<open>Auxiliary lemmas\<close>

subsection \<open>Iteration over rows and groups\<close>

lemma for_each_map:
  "(\<And>x. x \<in> set xs \<Longrightarrow> f x = Inr (g x)) \<Longrightarrow> for_each f xs = Inr (map g xs)"
  by (induction xs) auto

lemma for_each_map_map:
  "(\<And>x. x \<in> set xs \<Longrightarrow> f (h x) = Inr (g x)) \<Longrightarrow> for_each f (map h xs) = Inr (map g xs)"
  by (induction xs) auto

lemma for_each_groups:
  assumes "\<And>i. i \<in> set (group_keys df) \<Longrightarrow> f (rows_of df i) = Inr (g i)"
  shows "for_each f (groupby_individual df) = Inr (map g (group_keys df))"
  unfolding groupby_individual_def using assms by (rule for_each_map_map)

lemma group_keys_set: "set (group_keys df) = individual ` set df"
  by (simp add: group_keys_def)

lemma rows_of_nonempty: "i \<in> set (group_keys df) \<Longrightarrow> rows_of df i \<noteq> []"
  by (auto simp: group_keys_set rows_of_def filter_empty_conv)

lemma for_each_length: "for_each f xs = Inr ys \<Longrightarrow> length ys = length xs"
  by (induction xs arbitrary: ys) (auto split: sum.splits)

lemma for_each_nth:
  "for_each f xs = Inr ys \<Longrightarrow> k < length xs \<Longrightarrow> f (xs ! k) = Inr (ys ! k)"
proof (induction xs arbitrary: ys k)
  case Nil
  then show ?case by simp
next
  case (Cons x xs)
  then show ?case by (cases k) (auto split: sum.splits)
qed

lemma unique_distinct_set:
  "distinct seen \<Longrightarrow> distinct (unique seen xs) \<and> set (unique seen xs) = set seen \<union> set xs"
  by (induction xs arbitrary: seen) auto

lemma group_keys_sorted: "sorted (group_keys df) \<and> distinct (group_keys df)"
  by (simp add: group_keys_def)

lemma length_unique: "length (unique [] (map individual df)) = length (group_keys df)"
proof -
  have d: "distinct (unique [] (map individual df))"
    and e: "set (unique [] (map individual df)) = set (group_keys df)"
    using unique_distinct_set [of "[]" "map individual df"] by (simp_all add: group_keys_def)
  have "length (unique [] (map individual df)) = card (set (unique [] (map individual df)))"
    using d by (rule distinct_card [symmetric])
  also have "\<dots> = card (set (group_keys df))"
    unfolding e ..
  also have "\<dots> = length (group_keys df)"
    using group_keys_sorted [of df] by (intro distinct_card) simp
  finally show ?thesis .
qed

subsection \<open>inquisitiveness\<close>

lemma visit_loop_count:
  "visit_loop grp n = n + length (filter (\<lambda>r. gcolor r \<noteq> None \<and> gcolor r \<noteq> icolor r) grp)"
  by (induction grp arbitrary: n) (auto simp: py_ne_def notna_def split: option.splits)

subsection \<open>group\_homogeneity\<close>



subsection \<open>group\_size\<close>

lemma group_size_index_hit:
  assumes "r \<in> set df" "notna_row r"
  shows "group_size_index df (time r, group r) = Some (length (complete_members df (time r) (group r)))"
proof -
  have "r \<in> set (complete_members df (time r) (group r))"
    using assms by (simp add: complete_members_def dropna_def)
  then have "length (complete_members df (time r) (group r)) \<noteq> 0" by auto
  moreover have "filter (\<lambda>m. (time m, group m) = (time r, group r)) (dropna df)
      = complete_members df (time r) (group r)"
    by (simp add: complete_members_def)
  ultimately show ?thesis
    by (simp add: group_size_index_def Let_def)
qed

lemma group_size_cells:
  "for_each (group_size_cell (group_size_index df)) df = Inr (map (size_cell df) df)"
proof (rule for_each_map)
  fix r assume "r \<in> set df"
  then show "group_size_cell (group_size_index df) r = Inr (size_cell df r)"
    by (simp add: group_size_cell_def size_cell_def getitem_def group_size_index_hit)
qed

lemma cells_of_individual:
  "map snd (filter (\<lambda>(j, c). j = i) (zip (map individual rs) (map f rs))) = map f (rows_of rs i)"
  by (induction rs) (auto simp: rows_of_def)

lemma values_notna_size_cell:
  "values_notna (map (size_cell df) rs) =
     map (\<lambda>r. of_nat (length (complete_members df (time r) (group r)))) (dropna rs)"
  by (induction rs) (auto simp: size_cell_def dropna_def)

lemma group_size_eq:
  "dropna df \<noteq> [] \<Longrightarrow>
     group_size df = Inr (map (\<lambda>i. mean_skipna (map (size_cell df) (rows_of df i))) (group_keys df))"
  by (simp add: group_size_def group_size_cells cells_of_individual)

lemma group_size_no_complete_row: "dropna df = [] \<Longrightarrow> group_size df = Inl ValueError"
  by (simp add: group_size_def)

lemma dropna_rows_of: "dropna (rows_of df i) \<noteq> [] \<Longrightarrow> dropna df \<noteq> []"
  by (auto simp: dropna_def rows_of_def filter_empty_conv)

lemma mean_skipna_size_cell:
  assumes "dropna rs \<noteq> []"
  shows "mean_skipna (map (size_cell df) rs) =
     Some (avg (map (\<lambda>r. of_nat (length (complete_members df (time r) (group r)))) (dropna rs)))"
  using assms by (simp add: mean_skipna_def values_notna_size_cell avg_def)

subsection \<open>community\_stay and cyclicity\<close>

lemma stay_step_pair:
  "stay_step cs j (xs, off) =
     (if py_eq (cs ! j) (cs ! (j - 1)) then (xs, off) else (xs @ [j - off], j))"
  by (simp add: stay_step_def)

lemma fold_stay_step:
  "fold (stay_step cs) js (xs, off) = (ys, off') \<Longrightarrow>
     length ys = length xs + length (filter (\<lambda>i. \<not> py_eq (cs ! i) (cs ! (i - 1))) js)"
proof (induction js arbitrary: xs off)
  case Nil
  then show ?case by simp
next
  case (Cons j js)
  show ?case
  proof (cases "py_eq (cs ! j) (cs ! (j - 1))")
    case True
    with Cons.prems have "fold (stay_step cs) js (xs, off) = (ys, off')"
      by (simp add: stay_step_pair)
    from Cons.IH [OF this] True show ?thesis by simp
  next
    case False
    with Cons.prems have "fold (stay_step cs) js (xs @ [j - off], j) = (ys, off')"
      by (simp add: stay_step_pair)
    from Cons.IH [OF this] False show ?thesis by simp
  qed
qed

lemma length_stay_runs:
  "length (stay_runs cs) = Suc (length (filter (\<lambda>i. \<not> py_eq (cs ! i) (cs ! (i - 1))) [1..<length cs]))"
proof -
  obtain ys off' where f: "fold (stay_step cs) [1..<length cs] ([], 0) = (ys, off')"
    by (cases "fold (stay_step cs) [1..<length cs] ([], 0)")
  from fold_stay_step [OF f] show ?thesis
    unfolding stay_runs_def f by simp
qed

lemma upt_one_Suc: "[Suc 0..<Suc (Suc n)] = Suc 0 # map Suc [Suc 0..<Suc n]"
  by (simp add: upt_conv_Cons map_Suc_upt del: upt_Suc)

lemma breaks_index:
  "length (filter (\<lambda>i. \<not> py_eq ((c # cs) ! i) ((c # cs) ! (i - 1))) [1..<Suc (length cs)]) = run_breaks c cs"
proof (induction cs arbitrary: c)
  case Nil
  then show ?case by simp
next
  case (Cons d cs)
  have "filter (\<lambda>i. \<not> py_eq ((c # d # cs) ! i) ((c # d # cs) ! (i - 1))) (map Suc [Suc 0..<Suc (length cs)])
      = map Suc (filter (\<lambda>i. \<not> py_eq ((d # cs) ! i) ((d # cs) ! (i - 1))) [Suc 0..<Suc (length cs)])"
    unfolding filter_map by (rule arg_cong [where f = "map Suc"], rule filter_cong) (auto simp: nth_Cons')
  then show ?case
    using Cons.IH [of d] by (simp add: upt_one_Suc del: upt_Suc)
qed

lemma runs_as_breaks: "length (stay_runs (c # cs)) = 1 + run_breaks c cs"
  using breaks_index [of c cs] by (simp add: length_stay_runs)

lemma breaks_minus_nulls:
  "int (run_breaks p cs) - int (length (filter isnull cs)) = int (color_starts p cs)"
  by (induction cs arbitrary: p) (auto simp: py_eq_def py_ne_def isnull_def notna_def split: option.splits)

lemma runs_minus_nulls:
  "cs \<noteq> [] \<Longrightarrow> int (length (stay_runs cs)) - int (length (filter isnull cs)) = int (color_starts None cs)"
proof (cases cs)
  case Nil
  then show "cs \<noteq> [] \<Longrightarrow> ?thesis" by simp
next
  case (Cons c cs')
  show ?thesis
    using breaks_minus_nulls [of c cs']
    by (auto simp: Cons runs_as_breaks py_ne_def isnull_def notna_def split: option.splits)
qed

lemma zip_shifted: "zip (p # butlast (c # cs)) (c # cs) = (p, c) # zip (c # butlast cs) cs"
  by (cases cs) auto

lemma kept_starts:
  "length (values_notna (map snd (filter (\<lambda>(s, c). py_ne s c) (zip (p # butlast cs) cs)))) = color_starts p cs"
proof (induction cs arbitrary: p)
  case Nil
  then show ?case by simp
next
  case (Cons c cs)
  show ?case
    unfolding zip_shifted using Cons.IH [of c]
    by (cases c) (auto simp: notna_def py_ne_def)
qed

lemma count_as_starts:
  "length (values_notna (consecutive_uniques cs)) = color_starts None cs"
proof (cases cs)
  case Nil
  then show ?thesis by (simp add: consecutive_uniques_def shift_def)
next
  case (Cons c cs')
  then show ?thesis
    using kept_starts [of None cs] by (simp add: consecutive_uniques_def shift_def)
qed

lemma set_values_notna: "set (values_notna cs) = {x. Some x \<in> set cs}"
  by (induction cs rule: values_notna.induct) auto

lemma starts_cover_colors:
  "card (set (values_notna cs) - set_option p) \<le> color_starts p cs"
proof (induction cs arbitrary: p)
  case Nil
  then show ?case by simp
next
  case (Cons c cs)
  show ?case
  proof (cases c)
    case None
    have "card (set (values_notna cs) - set_option p) \<le> card (set (values_notna cs) - set_option None)"
      by (intro card_mono) auto
    with Cons.IH [of None] show ?thesis
      by (simp add: None notna_def)
  next
    case (Some x)
    show ?thesis
    proof (cases "p = Some x")
      case True
      have "insert x (set (values_notna cs)) - {x} = set (values_notna cs) - {x}" by auto
      with Cons.IH [of "Some x"] show ?thesis
        by (simp add: Some True py_ne_def)
    next
      case False
      have "insert x (set (values_notna cs)) - set_option p \<subseteq> insert x (set (values_notna cs) - {x})"
        by auto
      then have "card (insert x (set (values_notna cs)) - set_option p) \<le> card (insert x (set (values_notna cs) - {x}))"
        by (intro card_mono) auto
      also have "\<dots> = Suc (card (set (values_notna cs) - {x}))"
        by (rule card_insert_disjoint) auto
      finally show ?thesis
        using Cons.IH [of "Some x"] False
        by (auto simp: Some py_ne_def notna_def split: option.splits)
    qed
  qed
qed

lemma nunique_le_starts: "nunique cs \<le> color_starts None cs"
  using starts_cover_colors [of cs None] by (simp add: nunique_def length_remdups_card_conv)

lemma starts_constant:
  "\<forall>c \<in> set cs. c = k \<Longrightarrow> color_starts k cs = 0"
  by (induction cs) (auto simp: py_ne_def notna_def split: option.splits)

lemma constant_colors:
  assumes "\<forall>c \<in> set cs. c = k"
  shows "color_starts None cs = nunique cs"
proof (cases cs)
  case Nil
  then show ?thesis by (simp add: nunique_def)
next
  case (Cons c cs')
  with assms have ck: "c = k" and rest: "\<forall>c \<in> set cs'. c = k" by auto
  show ?thesis
  proof (cases k)
    case None
    with assms have "values_notna cs = []"
      by (induction cs) auto
    moreover from None rest have "color_starts None cs' = 0" by (simp add: starts_constant)
    ultimately show ?thesis using None ck Cons by (simp add: nunique_def notna_def)
  next
    case (Some x)
    from assms Some Cons have "set (values_notna cs) = {x}"
      by (auto simp: set_values_notna)
    then have "nunique cs = 1"
      by (simp add: nunique_def length_remdups_card_conv)
    moreover from rest have "color_starts k cs' = 0" by (rule starts_constant)
    ultimately show ?thesis using Some ck Cons by (simp add: py_ne_def notna_def)
  qed
qed

lemma cyclicity_value_starts:
  "cyclicity_value grp = int (color_starts None (map icolor grp)) - int (nunique (map icolor grp))"
  by (simp add: cyclicity_value_def Let_def count_as_starts)

subsection \<open>The subgroup index\<close>

lemma fold_add_member:
  "fold add_member rs m k =
     (let ms = map individual (filter (\<lambda>r. (time r, group r, icolor r) = k) rs)
      in if ms = [] then m k
         else Some (set ms \<union> (case m k of None \<Rightarrow> {} | Some s \<Rightarrow> s)))"
proof (induction rs arbitrary: m)
  case Nil
  then show ?case by simp
next
  case (Cons r rs)
  show ?case
    unfolding fold_simps Cons.IH
    by (auto simp: add_member_def Let_def split: option.splits)
qed

lemma compute_subgroups_eq:
  "compute_subgroups df k =
     (let ms = map individual (filter (\<lambda>r. notna_row r \<and> (time r, group r, icolor r) = k) df)
      in if ms = [] then None else Some (set ms))"
  by (simp add: compute_subgroups_def fold_add_member dropna_def Let_def)

lemma subgroup_hit:
  assumes "r \<in> set df" "notna_row r"
  shows "getitem (compute_subgroups df) (time r, group r, icolor r) = Inr (subgroup_of df r)"
proof -
  have "r \<in> set (filter (\<lambda>m. notna_row m \<and> (time m, group m, icolor m) = (time r, group r, icolor r)) df)"
    using assms by simp
  then have "filter (\<lambda>m. notna_row m \<and> (time m, group m, icolor m) = (time r, group r, icolor r)) df \<noteq> []"
    by (metis empty_iff list.set(1))
  then show ?thesis
    by (simp add: getitem_def compute_subgroups_eq subgroup_of_def Let_def)
qed

lemma in_set_tl: "x \<in> set (tl xs) \<Longrightarrow> x \<in> set xs"
  by (cases xs) auto

lemma pairs_from_zip: "pairs_from p rest = zip (p # rest) rest"
  by (induction rest arbitrary: p) auto

lemma adjacent_pairs_zip: "rs \<noteq> [] \<Longrightarrow> adjacent_pairs rs = Inr (zip rs (tl rs))"
  by (cases rs) (auto simp: pairs_from_zip)

lemma pair_value_contribution:
  assumes "r1 \<in> set df" "r2 \<in> set df"
    and "notna (group r1) \<and> notna (group r2) \<longrightarrow> notna_row r1 \<and> notna_row r2"
  shows "pair_value (compute_subgroups df) (r1, r2) = Inr (pair_contribution df (r1, r2))"
proof (cases "isnull (group r1) \<or> isnull (group r2)")
  case True
  then show ?thesis by (simp add: pair_value_def pair_contribution_def)
next
  case False
  then have "notna (group r1) \<and> notna (group r2)"
    by (auto simp: isnull_def notna_def split: option.splits)
  with assms(3) have "notna_row r1" "notna_row r2" by auto
  with assms(1,2) show ?thesis
    using False by (simp add: pair_value_def pair_contribution_def subgroup_hit)
qed

subsection \<open>community\_size and individual\_apparency\<close>

lemma community_size_index_hit:
  assumes "r \<in> set df" "notna (icolor r)"
  shows "community_size_index df (time r, icolor r) =
           Some (length (filter (\<lambda>m. time m = time r \<and> icolor m = icolor r) df))"
proof -
  have eq: "filter (\<lambda>m. (time m, icolor m) = (time r, icolor r) \<and> notna (icolor m)) df
      = filter (\<lambda>m. time m = time r \<and> icolor m = icolor r) df"
    using assms(2) by (intro filter_cong) auto
  have "r \<in> set (filter (\<lambda>m. time m = time r \<and> icolor m = icolor r) df)"
    using assms(1) by simp
  then have "length (filter (\<lambda>m. time m = time r \<and> icolor m = icolor r) df) \<noteq> 0"
    by (metis empty_iff length_0_conv list.set(1))
  then show ?thesis
    unfolding community_size_index_def eq Let_def by simp
qed

lemma index_of_hit: "t \<in> set xs \<Longrightarrow> \<exists>n. index_of xs t = Some n"
  by (induction xs) auto

lemma time_index_hit: "t \<in> set (map time df) \<Longrightarrow> \<exists>n. time_index df t = Some n"
proof -
  assume "t \<in> set (map time df)"
  then have "t \<in> set (unique [] (map time df))"
    using unique_distinct_set [of "[]" "map time df"] by simp
  from index_of_hit [OF this] show ?thesis
    by (simp add: time_index_def)
qed

lemma diff_hit:
  assumes "t2 \<in> set (map time df)" "t1 \<in> set (map time df)"
  shows "diff (time_index df) t2 t1 = Inr (time_rank df t2 - time_rank df t1 + 1)"
proof -
  from time_index_hit [OF assms(1)] obtain n2 where "time_index df t2 = Some n2" ..
  moreover from time_index_hit [OF assms(2)] obtain n1 where "time_index df t1 = Some n1" ..
  ultimately show ?thesis
    by (simp add: diff_def getitem_def time_rank_def)
qed

lemma fold_max_Max: "fold max xs (a::int) = Max (insert a (set xs))"
proof (induction xs arbitrary: a)
  case Nil
  then show ?case by simp
next
  case (Cons x xs)
  have "Max (insert (max x a) (set xs)) = Max (insert a (insert x (set xs)))"
    by (cases "set xs = {}") (simp_all add: max.assoc max.commute)
  then show ?case by (simp add: Cons.IH)
qed

lemma fold_min_Min: "fold min xs (a::int) = Min (insert a (set xs))"
proof (induction xs arbitrary: a)
  case Nil
  then show ?case by simp
next
  case (Cons x xs)
  have "Min (insert (min x a) (set xs)) = Min (insert a (insert x (set xs)))"
    by (cases "set xs = {}") (simp_all add: min.assoc min.commute)
  then show ?case by (simp add: Cons.IH)
qed

lemma py_max_Max: "ts \<noteq> [] \<Longrightarrow> py_max ts = Max (set ts)"
  by (cases ts) (simp_all add: py_max_def fold_max_Max)

lemma py_min_Min: "ts \<noteq> [] \<Longrightarrow> py_min ts = Min (set ts)"
  by (cases ts) (simp_all add: py_min_def fold_min_Min)


lemma color_times:
  assumes "Some c \<in> set (map icolor df)"
  shows "times_of_color df c \<noteq> []" and "set (times_of_color df c) \<subseteq> set (map time df)"
proof -
  from assms obtain r where "r \<in> set df" "icolor r = Some c" by auto
  then have "time r \<in> set (times_of_color df c)"
    by (auto simp: times_of_color_def)
  then show "times_of_color df c \<noteq> []" by auto
  show "set (times_of_color df c) \<subseteq> set (map time df)"
    by (auto simp: times_of_color_def)
qed

lemma color_diff:
  assumes "Some c \<in> set (map icolor df)"
  shows "diff (time_index df) (py_max (times_of_color df c)) (py_min (times_of_color df c))
           = Inr (color_duration df c)"
proof -
  note t = color_times [OF assms]
  have "Max (set (times_of_color df c)) \<in> set (times_of_color df c)"
    and "Min (set (times_of_color df c)) \<in> set (times_of_color df c)"
    using t(1) by simp_all
  with t(2) have "Max (set (times_of_color df c)) \<in> set (map time df)"
    and "Min (set (times_of_color df c)) \<in> set (map time df)"
    by blast+
  from diff_hit [OF this] show ?thesis
    by (simp add: py_max_Max py_min_Min t(1) color_duration_def)
qed

lemma map_of_keyed:
  "c \<in> set cs \<Longrightarrow> map_of (map (\<lambda>c. (Some c, f c)) cs) (Some c) = Some (f c)"
  by (induction cs) auto

lemma community_apparency_eq:
  "community_apparency df =
     Inr (map_of (map (\<lambda>c. (Some c, color_duration df c))
                      (sort (remdups (values_notna (map icolor df))))))"
proof -
  have "for_each
          (\<lambda>ic. case diff (time_index df) (py_max (times_of_color df ic)) (py_min (times_of_color df ic)) of
                  Inl e \<Rightarrow> Inl e
                | Inr d \<Rightarrow> Inr (Some ic, d))
          (sort (remdups (values_notna (map icolor df))))
        = Inr (map (\<lambda>c. (Some c, color_duration df c)) (sort (remdups (values_notna (map icolor df)))))"
  proof (rule for_each_map)
    fix c assume "c \<in> set (sort (remdups (values_notna (map icolor df))))"
    then have "Some c \<in> set (map icolor df)"
      by (simp add: set_values_notna)
    from color_diff [OF this]
    show "(case diff (time_index df) (py_max (times_of_color df c)) (py_min (times_of_color df c)) of
             Inl e \<Rightarrow> Inl e
           | Inr d \<Rightarrow> Inr (Some c, d)) = Inr (Some c, color_duration df c)"
      by simp
  qed
  then show ?thesis by (simp add: community_apparency_def)
qed

lemma remdups_map_Some: "remdups (map Some xs) = map Some (remdups xs)"
  by (induction xs) auto

lemma all_notna_values: "\<forall>c \<in> set cs. notna c \<Longrightarrow> cs = map Some (values_notna cs)"
  by (induction cs rule: values_notna.induct) (auto simp: notna_def)

subsection \<open>The columns of the result\<close>

lemma metrics_columns:
  assumes "compute_individual_metrics df = Inr m"
  shows "col_individual m = unique [] (map individual df)
       \<and> absenteeism df = Inr (col_absenteeism m)
       \<and> inquisitiveness df = Inr (col_inquisitiveness m)
       \<and> community_stay df = col_community_stay m
       \<and> avg_num_peers df (compute_subgroups df) = Inr (col_avg_num_peers m)
       \<and> peer_synchrony df (compute_subgroups df) = Inr (col_peer_synchrony m)
       \<and> group_size df = Inr (col_group_size m)
       \<and> group_homogeneity df = Inr (col_group_homogeneity m)
       \<and> individual_apparency df = Inr (col_individual_apparency m)
       \<and> cyclicity df = col_cyclicity m
       \<and> community_size df = Inr (col_community_size m)"
  using assms unfolding compute_individual_metrics_def Let_def
  by (auto split: sum.splits)

section \<open>The metrics on the tables where no lookup fails\<close>

text \<open>The averaging convention: the average of no value is \<open>0.0\<close>.\<close>

lemma avg_empty: "avg [] = 0"
  by (simp add: avg_def)

text \<open>
  Every metric list has one entry per distinct individual, and entry \<open>k\<close> belongs to the
  \<open>k\<close>-th individual by ascending identifier. The identity column agrees with that order
  exactly when the individuals first appear in ascending order.
\<close>

lemma metrics_one_value_per_individual:
  assumes "compute_individual_metrics df = Inr m"
  shows "length (col_individual m) = length (group_keys df)
       \<and> length (col_absenteeism m) = length (group_keys df)
       \<and> length (col_inquisitiveness m) = length (group_keys df)
       \<and> length (col_community_stay m) = length (group_keys df)
       \<and> length (col_avg_num_peers m) = length (group_keys df)
       \<and> length (col_peer_synchrony m) = length (group_keys df)
       \<and> length (col_group_size m) = length (group_keys df)
       \<and> length (col_group_homogeneity m) = length (group_keys df)
       \<and> length (col_individual_apparency m) = length (group_keys df)
       \<and> length (col_cyclicity m) = length (group_keys df)
       \<and> length (col_community_size m) = length (group_keys df)"
proof -
  from metrics_columns [OF assms]
  have c0: "col_individual m = unique [] (map individual df)"
    and c1: "absenteeism df = Inr (col_absenteeism m)"
    and c2: "inquisitiveness df = Inr (col_inquisitiveness m)"
    and c3: "community_stay df = col_community_stay m"
    and c4: "avg_num_peers df (compute_subgroups df) = Inr (col_avg_num_peers m)"
    and c5: "peer_synchrony df (compute_subgroups df) = Inr (col_peer_synchrony m)"
    and c6: "group_size df = Inr (col_group_size m)"
    and c7: "group_homogeneity df = Inr (col_group_homogeneity m)"
    and c8: "individual_apparency df = Inr (col_individual_apparency m)"
    and c9: "cyclicity df = col_cyclicity m"
    and c10: "community_size df = Inr (col_community_size m)"
    by blast+
  have g: "length (groupby_individual df) = length (group_keys df)"
    by (simp add: groupby_individual_def)
  have "length (col_individual m) = length (group_keys df)"
    unfolding c0 by (rule length_unique)
  moreover have "length (col_absenteeism m) = length (group_keys df)"
    using for_each_length [OF c1 [unfolded absenteeism_def]] g by simp
  moreover have "length (col_inquisitiveness m) = length (group_keys df)"
    using for_each_length [OF c2 [unfolded inquisitiveness_def]] g by simp
  moreover have "length (col_community_stay m) = length (group_keys df)"
    unfolding c3 [symmetric] community_stay_def using g by simp
  moreover have "length (col_avg_num_peers m) = length (group_keys df)"
    using for_each_length [OF c4 [unfolded avg_num_peers_def]] g by simp
  moreover have "length (col_peer_synchrony m) = length (group_keys df)"
    using for_each_length [OF c5 [unfolded peer_synchrony_def]] g by simp
  moreover have "length (col_group_size m) = length (group_keys df)"
  proof (cases "dropna df = []")
    case True
    with c6 show ?thesis by (simp add: group_size_no_complete_row)
  next
    case False
    from c6 [unfolded group_size_eq [OF False]] show ?thesis
      by (metis Inr_inject length_map)
  qed
  moreover have "length (col_group_homogeneity m) = length (group_keys df)"
    using for_each_length [OF c7 [unfolded group_homogeneity_def]] g by simp
  moreover have "length (col_individual_apparency m) = length (group_keys df)"
  proof (cases "community_apparency df")
    case (Inl e)
    with c8 show ?thesis by (simp add: individual_apparency_def)
  next
    case (Inr ca)
    with c8 have "for_each (individual_apparency_value ca) (groupby_individual df)
        = Inr (col_individual_apparency m)"
      by (simp add: individual_apparency_def)
    from for_each_length [OF this] g show ?thesis by simp
  qed
  moreover have "length (col_cyclicity m) = length (group_keys df)"
    unfolding c9 [symmetric] cyclicity_def using g by simp
  moreover have "length (col_community_size m) = length (group_keys df)"
    using for_each_length [OF c10 [unfolded community_size_def]] g by simp
  ultimately show ?thesis by blast
qed

lemma metrics_follow_sorted_keys:
  assumes "compute_individual_metrics df = Inr m" and "k < length (group_keys df)"
  shows "absenteeism_value (time_gcolors df) (rows_of df (group_keys df ! k)) = Inr (col_absenteeism m ! k)
       \<and> inquisitiveness_value (rows_of df (group_keys df ! k)) = Inr (col_inquisitiveness m ! k)
       \<and> community_stay_value (rows_of df (group_keys df ! k)) = col_community_stay m ! k
       \<and> avg_num_peers_value (compute_subgroups df) (rows_of df (group_keys df ! k))
           = Inr (col_avg_num_peers m ! k)
       \<and> peer_synchrony_value (compute_subgroups df) (rows_of df (group_keys df ! k))
           = Inr (col_peer_synchrony m ! k)
       \<and> mean_skipna (map (size_cell df) (rows_of df (group_keys df ! k))) = col_group_size m ! k
       \<and> group_homogeneity_value (homogeneity_index df) (rows_of df (group_keys df ! k))
           = Inr (col_group_homogeneity m ! k)
       \<and> (\<exists>ca. community_apparency df = Inr ca
             \<and> individual_apparency_value ca (rows_of df (group_keys df ! k))
                 = Inr (col_individual_apparency m ! k))
       \<and> cyclicity_value (rows_of df (group_keys df ! k)) = col_cyclicity m ! k
       \<and> community_size_value (community_size_index df) (rows_of df (group_keys df ! k))
           = Inr (col_community_size m ! k)"
proof -
  from metrics_columns [OF assms(1)]
  have c1: "absenteeism df = Inr (col_absenteeism m)"
    and c2: "inquisitiveness df = Inr (col_inquisitiveness m)"
    and c3: "community_stay df = col_community_stay m"
    and c4: "avg_num_peers df (compute_subgroups df) = Inr (col_avg_num_peers m)"
    and c5: "peer_synchrony df (compute_subgroups df) = Inr (col_peer_synchrony m)"
    and c6: "group_size df = Inr (col_group_size m)"
    and c7: "group_homogeneity df = Inr (col_group_homogeneity m)"
    and c8: "individual_apparency df = Inr (col_individual_apparency m)"
    and c9: "cyclicity df = col_cyclicity m"
    and c10: "community_size df = Inr (col_community_size m)"
    by blast+
  from assms(2) have k: "k < length (groupby_individual df)"
    and r: "groupby_individual df ! k = rows_of df (group_keys df ! k)"
    by (simp_all add: groupby_individual_def)
  from for_each_nth [OF c1 [unfolded absenteeism_def] k]
  have "absenteeism_value (time_gcolors df) (rows_of df (group_keys df ! k)) = Inr (col_absenteeism m ! k)"
    unfolding r .
  moreover from for_each_nth [OF c2 [unfolded inquisitiveness_def] k]
  have "inquisitiveness_value (rows_of df (group_keys df ! k)) = Inr (col_inquisitiveness m ! k)"
    unfolding r .
  moreover have "community_stay_value (rows_of df (group_keys df ! k)) = col_community_stay m ! k"
    unfolding c3 [symmetric] community_stay_def using k r by simp
  moreover from for_each_nth [OF c4 [unfolded avg_num_peers_def] k]
  have "avg_num_peers_value (compute_subgroups df) (rows_of df (group_keys df ! k))
      = Inr (col_avg_num_peers m ! k)"
    unfolding r .
  moreover from for_each_nth [OF c5 [unfolded peer_synchrony_def] k]
  have "peer_synchrony_value (compute_subgroups df) (rows_of df (group_keys df ! k))
      = Inr (col_peer_synchrony m ! k)"
    unfolding r .
  moreover have "mean_skipna (map (size_cell df) (rows_of df (group_keys df ! k))) = col_group_size m ! k"
  proof (cases "dropna df = []")
    case True
    with c6 show ?thesis by (simp add: group_size_no_complete_row)
  next
    case False
    from c6 [unfolded group_size_eq [OF False]]
    have "col_group_size m = map (\<lambda>i. mean_skipna (map (size_cell df) (rows_of df i))) (group_keys df)"
      by simp
    with assms(2) show ?thesis by simp
  qed
  moreover from for_each_nth [OF c7 [unfolded group_homogeneity_def] k]
  have "group_homogeneity_value (homogeneity_index df) (rows_of df (group_keys df ! k))
      = Inr (col_group_homogeneity m ! k)"
    unfolding r .
  moreover have "\<exists>ca. community_apparency df = Inr ca
      \<and> individual_apparency_value ca (rows_of df (group_keys df ! k))
          = Inr (col_individual_apparency m ! k)"
  proof (cases "community_apparency df")
    case (Inl e)
    with c8 show ?thesis by (simp add: individual_apparency_def)
  next
    case (Inr ca)
    with c8 have "for_each (individual_apparency_value ca) (groupby_individual df)
        = Inr (col_individual_apparency m)"
      by (simp add: individual_apparency_def)
    from for_each_nth [OF this k] Inr show ?thesis
      unfolding r by simp
  qed
  moreover have "cyclicity_value (rows_of df (group_keys df ! k)) = col_cyclicity m ! k"
    unfolding c9 [symmetric] cyclicity_def using k r by simp
  moreover from for_each_nth [OF c10 [unfolded community_size_def] k]
  have "community_size_value (community_size_index df) (rows_of df (group_keys df ! k))
      = Inr (col_community_size m ! k)"
    unfolding r .
  ultimately show ?thesis by blast
qed

lemma unique_ascending:
  "unique [] (map individual df) = group_keys df \<longleftrightarrow> sorted (unique [] (map individual df))"
proof
  assume "unique [] (map individual df) = group_keys df"
  then show "sorted (unique [] (map individual df))"
    using group_keys_sorted [of df] by simp
next
  assume s: "sorted (unique [] (map individual df))"
  show "unique [] (map individual df) = group_keys df"
  proof (rule sorted_distinct_set_unique)
    show "sorted (unique [] (map individual df))" by (rule s)
    show "distinct (unique [] (map individual df))"
      using unique_distinct_set [of "[]" "map individual df"] by simp
    show "sorted (group_keys df)" "distinct (group_keys df)"
      using group_keys_sorted [of df] by simp_all
    show "set (unique [] (map individual df)) = set (group_keys df)"
      using unique_distinct_set [of "[]" "map individual df"] by (simp add: group_keys_def)
  qed
qed

text \<open>
  peer\_synchrony, when every row of an adjacent pair with two non-null groups is free of
  nulls: the mean of the contributions of the adjacent pairs of each individual.
\<close>

lemma peer_synchrony_mean:
  assumes "\<forall>i \<in> set (group_keys df). \<forall>(r1, r2) \<in> set (zip (rows_of df i) (tl (rows_of df i))).
             notna (group r1) \<and> notna (group r2) \<longrightarrow> notna_row r1 \<and> notna_row r2"
  shows "peer_synchrony df (compute_subgroups df) =
           Inr (map (\<lambda>i. avg (map (pair_contribution df) (zip (rows_of df i) (tl (rows_of df i)))))
                    (group_keys df))"
  unfolding peer_synchrony_def
proof (rule for_each_groups)
  fix i assume i: "i \<in> set (group_keys df)"
  let ?ps = "zip (rows_of df i) (tl (rows_of df i))"
  have "for_each (pair_value (compute_subgroups df)) ?ps = Inr (map (pair_contribution df) ?ps)"
  proof (rule for_each_map)
    fix p assume p: "p \<in> set ?ps"
    obtain r1 r2 where pr: "p = (r1, r2)" by (cases p)
    from p pr have "r1 \<in> set (rows_of df i)" "r2 \<in> set (tl (rows_of df i))"
      by (auto dest: set_zip_leftD set_zip_rightD)
    then have "r1 \<in> set df" "r2 \<in> set df"
      by (auto simp: rows_of_def dest: in_set_tl)
    moreover from assms i p pr have "notna (group r1) \<and> notna (group r2) \<longrightarrow> notna_row r1 \<and> notna_row r2"
      by blast
    ultimately show "pair_value (compute_subgroups df) p = Inr (pair_contribution df p)"
      unfolding pr by (rule pair_value_contribution)
  qed
  then show "peer_synchrony_value (compute_subgroups df) (rows_of df i) =
      Inr (avg (map (pair_contribution df) ?ps))"
    using rows_of_nonempty [OF i] by (simp add: peer_synchrony_value_def adjacent_pairs_zip)
qed

text \<open>
  The scenario of section 8, with X, Y, Z as individuals 1, 2, 3: all three are in group 1
  at time 1; at time 2 individuals 1 and 2 are in group 2 and individual 3 is in group 3.
  The only pair of individual 1 contributes \<open>(2 - 1) / (2 - 1) = 1\<close>.
\<close>

lemma peer_synchrony_scenario:
  "peer_synchrony
     [\<lparr>time = 1, group = Some 1, individual = 1, gcolor = Some 1, icolor = Some 1\<rparr>,
      \<lparr>time = 1, group = Some 1, individual = 2, gcolor = Some 1, icolor = Some 1\<rparr>,
      \<lparr>time = 1, group = Some 1, individual = 3, gcolor = Some 1, icolor = Some 1\<rparr>,
      \<lparr>time = 2, group = Some 2, individual = 1, gcolor = Some 1, icolor = Some 1\<rparr>,
      \<lparr>time = 2, group = Some 2, individual = 2, gcolor = Some 1, icolor = Some 1\<rparr>,
      \<lparr>time = 2, group = Some 3, individual = 3, gcolor = Some 1, icolor = Some 1\<rparr>]
     (compute_subgroups
        [\<lparr>time = 1, group = Some 1, individual = 1, gcolor = Some 1, icolor = Some 1\<rparr>,
         \<lparr>time = 1, group = Some 1, individual = 2, gcolor = Some 1, icolor = Some 1\<rparr>,
         \<lparr>time = 1, group = Some 1, individual = 3, gcolor = Some 1, icolor = Some 1\<rparr>,
         \<lparr>time = 2, group = Some 2, individual = 1, gcolor = Some 1, icolor = Some 1\<rparr>,
         \<lparr>time = 2, group = Some 2, individual = 2, gcolor = Some 1, icolor = Some 1\<rparr>,
         \<lparr>time = 2, group = Some 3, individual = 3, gcolor = Some 1, icolor = Some 1\<rparr>])
   = Inr [1, 1, 0]"
  by code_simp

text \<open>
  A key with a null community color is never in the index, so an adjacent pair with two
  non-null groups and a null community color in either row always fails the lookup.
\<close>

lemma null_color_not_indexed: "compute_subgroups df (t, g, None) = None"
proof -
  have "filter (\<lambda>r. notna_row r \<and> (time r, group r, icolor r) = (t, g, None)) df = []"
    by (auto simp: filter_empty_conv notna_row_def notna_def split: option.splits)
  then show ?thesis
    by (simp add: compute_subgroups_eq)
qed

lemma pair_value_null_color_raises:
  assumes "notna (group r1)" "notna (group r2)"
    and "isnull (icolor r1) \<or> isnull (icolor r2)"
  shows "pair_value (compute_subgroups df) (r1, r2) = Inl KeyError"
proof -
  from assms(1,2) have g: "\<not> isnull (group r1)" "\<not> isnull (group r2)"
    by (auto simp: isnull_def notna_def split: option.splits)
  from assms(3) have c: "icolor r1 = None \<or> icolor r2 = None"
    by (auto simp: isnull_def split: option.splits)
  show ?thesis
  proof (cases "icolor r1")
    case None
    with g show ?thesis
      by (simp add: pair_value_def getitem_def null_color_not_indexed)
  next
    case (Some x)
    with c have "icolor r2 = None" by simp
    with g show ?thesis
      by (simp add: pair_value_def getitem_def null_color_not_indexed split: option.splits)
  qed
qed

text \<open>
  community\_size and individual\_apparency, when no row has a null community color: the
  mean over all the observations of the individual of the number of rows with the same
  time and color, and the mean duration of the distinct colors of the individual.
\<close>

lemma community_size_mean:
  assumes "\<forall>r \<in> set df. notna (icolor r)"
  shows "community_size df =
           Inr (map (\<lambda>i. avg (map (\<lambda>r. of_nat (length (filter (\<lambda>m. time m = time r \<and> icolor m = icolor r) df)))
                                 (rows_of df i)))
                    (group_keys df))"
  unfolding community_size_def
proof (rule for_each_groups)
  fix i
  have "for_each (\<lambda>row. getitem (community_size_index df) (time row, icolor row)) (rows_of df i)
      = Inr (map (\<lambda>r. length (filter (\<lambda>m. time m = time r \<and> icolor m = icolor r) df)) (rows_of df i))"
  proof (rule for_each_map)
    fix r assume "r \<in> set (rows_of df i)"
    then have "r \<in> set df" by (simp add: rows_of_def)
    with assms show "getitem (community_size_index df) (time r, icolor r)
        = Inr (length (filter (\<lambda>m. time m = time r \<and> icolor m = icolor r) df))"
      by (simp add: getitem_def community_size_index_hit)
  qed
  then show "community_size_value (community_size_index df) (rows_of df i) =
      Inr (avg (map (\<lambda>r. of_nat (length (filter (\<lambda>m. time m = time r \<and> icolor m = icolor r) df)))
                    (rows_of df i)))"
    by (simp add: community_size_value_def comp_def)
qed

lemma individual_apparency_mean:
  assumes "\<forall>r \<in> set df. notna (icolor r)"
  shows "individual_apparency df =
           Inr (map (\<lambda>i. avg (map (\<lambda>c. of_int (color_duration df c))
                                 (remdups (values_notna (map icolor (rows_of df i))))))
                    (group_keys df))"
  unfolding individual_apparency_def community_apparency_eq sum.case
proof (rule for_each_groups)
  fix i
  let ?ca = "map_of (map (\<lambda>c. (Some c, color_duration df c)) (sort (remdups (values_notna (map icolor df)))))"
  let ?cs = "values_notna (map icolor (rows_of df i))"
  have "\<forall>c \<in> set (map icolor (rows_of df i)). notna c"
    using assms by (auto simp: rows_of_def)
  from all_notna_values [OF this]
  have cells: "remdups (map icolor (rows_of df i)) = map Some (remdups ?cs)"
    by (metis remdups_map_Some)
  have "for_each (getitem ?ca) (map Some (remdups ?cs)) = Inr (map (color_duration df) (remdups ?cs))"
  proof (rule for_each_map_map)
    fix c assume "c \<in> set (remdups ?cs)"
    then have "c \<in> set (sort (remdups (values_notna (map icolor df))))"
      by (auto simp: set_values_notna rows_of_def)
    then show "getitem ?ca (Some c) = Inr (color_duration df c)"
      by (simp add: getitem_def map_of_keyed)
  qed
  then show "individual_apparency_value ?ca (rows_of df i) =
      Inr (avg (map (\<lambda>c. of_int (color_duration df c)) (remdups ?cs)))"
    by (simp add: individual_apparency_value_def cells comp_def)
qed

section \<open>The claims\<close>

text \<open>
  Claim C1. The assembled output has one row per distinct individual, in order of first
  appearance, and row \<open>i\<close> of every metric column belongs to the individual in row \<open>i\<close>
  of the identity column. The code takes the identity column from \<^verbatim>\<open>unique()\<close> (first
  appearance) and every metric from a \<^verbatim>\<open>groupby\<close> (ascending identifier). On a table where
  individual 2 appears before individual 1, row 0 is labelled 2 and carries the
  inquisitiveness of individual 1 (which is 1), and row 1 is labelled 1 and carries the
  inquisitiveness of individual 2 (which is 0).
\<close>

theorem compute_individual_metrics_misaligned:
  "compute_individual_metrics
     [\<lparr>time = 1, group = Some 1, individual = 2, gcolor = Some 1, icolor = Some 1\<rparr>,
      \<lparr>time = 1, group = Some 1, individual = 1, gcolor = Some 1, icolor = Some 2\<rparr>]
   = Inr \<lparr>col_individual = [2, 1], col_absenteeism = [0, 0],
          col_inquisitiveness = [1, 0], col_community_stay = [1, 1],
          col_avg_num_peers = [0, 0], col_peer_synchrony = [0, 0],
          col_group_size = [Some 2, Some 2],
          col_group_homogeneity = [1 / 2, 1 / 2],
          col_individual_apparency = [1, 1], col_cyclicity = [0, 0],
          col_community_size = [1, 1]\<rparr>
   \<and> inquisitiveness_value
       [\<lparr>time = 1, group = Some 1, individual = 2, gcolor = Some 1, icolor = Some 1\<rparr>] = Inr 0
   \<and> inquisitiveness_value
       [\<lparr>time = 1, group = Some 1, individual = 1, gcolor = Some 1, icolor = Some 2\<rparr>] = Inr 1"
  by code_simp

text \<open>
  Claim C2. Averaging over no observations yields \<open>0.0\<close> and never an error, in every
  metric; inquisitiveness in particular returns \<open>0.0\<close> when its denominator is zero.
  The code divides by \<^verbatim>\<open>len(group.dropna())\<close> without going through \<^verbatim>\<open>avg\<close>: for an
  individual none of whose rows is free of nulls it raises \<^verbatim>\<open>ZeroDivisionError\<close>.
\<close>

theorem inquisitiveness_zero_denominator_raises:
  "inquisitiveness
     [\<lparr>time = 1, group = None, individual = 1, gcolor = None, icolor = None\<rparr>]
   = Inl ZeroDivisionError"
  by code_simp

text \<open>
  Claim C3, as amended. For every table in which each individual has at least one
  observation without a null field, and in which every observation with a non-null group
  color \<^verbatim>\<open>gcolor\<close> has no null field, the inquisitiveness of an individual is the number of
  its observations without a null field whose group color differs from its community
  color, divided by the number of its observations without a null field. An observation
  with a null group or group color is in neither count, whatever its community color. The
  values are listed by ascending identifier.
\<close>

theorem inquisitiveness_counts:
  assumes "\<forall>i \<in> set (group_keys df). dropna (rows_of df i) \<noteq> []"
    and "\<forall>r \<in> set df. gcolor r \<noteq> None \<longrightarrow> notna_row r"
  shows "inquisitiveness df =
           Inr (map (\<lambda>i. of_nat (length (filter (\<lambda>r. gcolor r \<noteq> icolor r) (dropna (rows_of df i))))
                          / of_nat (length (dropna (rows_of df i))))
                    (group_keys df))"
  unfolding inquisitiveness_def
proof (rule for_each_groups)
  fix i assume "i \<in> set (group_keys df)"
  with assms(1) have n: "length (dropna (rows_of df i)) \<noteq> 0" by simp
  have "filter (\<lambda>r. gcolor r \<noteq> None \<and> gcolor r \<noteq> icolor r) (rows_of df i)
      = filter (\<lambda>r. notna_row r \<and> gcolor r \<noteq> icolor r) (rows_of df i)"
  proof (rule filter_cong [OF refl])
    fix r assume "r \<in> set (rows_of df i)"
    then have "r \<in> set df" by (simp add: rows_of_def)
    with assms(2) have "gcolor r \<noteq> None \<longrightarrow> notna_row r" by blast
    moreover have "notna_row r \<longrightarrow> gcolor r \<noteq> None"
      by (auto simp: notna_row_def notna_def split: option.splits)
    ultimately show "(gcolor r \<noteq> None \<and> gcolor r \<noteq> icolor r) = (notna_row r \<and> gcolor r \<noteq> icolor r)"
      by blast
  qed
  then have "visit_loop (rows_of df i) 0
      = length (filter (\<lambda>r. gcolor r \<noteq> icolor r) (dropna (rows_of df i)))"
    by (simp add: visit_loop_count dropna_def conj_commute)
  with n show "inquisitiveness_value (rows_of df i) =
      Inr (of_nat (length (filter (\<lambda>r. gcolor r \<noteq> icolor r) (dropna (rows_of df i))))
             / of_nat (length (dropna (rows_of df i))))"
    by (simp add: inquisitiveness_value_def float_div_def)
qed

theorem inquisitiveness_counts_witness:
  "dropna (rows_of
     [\<lparr>time = 1, group = None, individual = 1, gcolor = None, icolor = Some 1\<rparr>,
      \<lparr>time = 1, group = Some 1, individual = 2, gcolor = Some 2, icolor = Some 2\<rparr>,
      \<lparr>time = 2, group = Some 1, individual = 1, gcolor = Some 2, icolor = Some 1\<rparr>] 1) \<noteq> []
   \<and> notna_row \<lparr>time = 2, group = Some 1, individual = 1, gcolor = Some 2, icolor = Some 1\<rparr>
   \<and> inquisitiveness
     [\<lparr>time = 1, group = None, individual = 1, gcolor = None, icolor = Some 1\<rparr>,
      \<lparr>time = 1, group = Some 1, individual = 2, gcolor = Some 2, icolor = Some 2\<rparr>,
      \<lparr>time = 2, group = Some 1, individual = 1, gcolor = Some 2, icolor = Some 1\<rparr>] = Inr [1 / 1, 0 / 1]"
proof -
  let ?T = "[\<lparr>time = 1, group = None, individual = 1, gcolor = None, icolor = Some 1\<rparr>,
      \<lparr>time = 1, group = Some 1, individual = 2, gcolor = Some 2, icolor = Some 2\<rparr>,
      \<lparr>time = 2, group = Some 1, individual = 1, gcolor = Some 2, icolor = Some 1\<rparr>]"
  have h: "\<forall>i \<in> set (group_keys ?T). dropna (rows_of ?T i) \<noteq> []"
    by code_simp
  have g: "\<forall>r \<in> set ?T. gcolor r \<noteq> None \<longrightarrow> notna_row r"
    by code_simp
  have v: "inquisitiveness ?T = Inr [1 / 1, 0 / 1]"
    by (rule trans [OF inquisitiveness_counts [OF h g]]) code_simp
  have d: "dropna (rows_of ?T 1) \<noteq> []"
    by code_simp
  have c: "notna_row \<lparr>time = 2, group = Some 1, individual = 1, gcolor = Some 2, icolor = Some 1\<rparr>"
    by code_simp
  from d c v show ?thesis by simp
qed

text \<open>
  The claim as stated classifies the rows by the nullness of \<^verbatim>\<open>icolor\<close>. An individual
  with community color 1 is seen once outside any group (null \<^verbatim>\<open>group\<close> and \<^verbatim>\<open>gcolor\<close>), once
  in a group of color 2 and once in a group of color 1. By the claim all three rows qualify
  and two of them differ from the group color (one, if a null group color does not count
  as different): \<open>2/3\<close> (or \<open>1/3\<close>). The code counts one visit and divides by the two rows
  without nulls: \<open>1/2\<close>.
\<close>

theorem inquisitiveness_classified_by_gcolor:
  "inquisitiveness
     [\<lparr>time = 1, group = None, individual = 1, gcolor = None, icolor = Some 1\<rparr>,
      \<lparr>time = 2, group = Some 1, individual = 1, gcolor = Some 2, icolor = Some 1\<rparr>,
      \<lparr>time = 3, group = Some 2, individual = 1, gcolor = Some 1, icolor = Some 1\<rparr>] = Inr [1 / 2]
   \<and> spec_inquisitiveness
     [\<lparr>time = 1, group = None, individual = 1, gcolor = None, icolor = Some 1\<rparr>,
      \<lparr>time = 2, group = Some 1, individual = 1, gcolor = Some 2, icolor = Some 1\<rparr>,
      \<lparr>time = 3, group = Some 2, individual = 1, gcolor = Some 1, icolor = Some 1\<rparr>] = 2 / 3
   \<and> rat_of_nat (length (filter (\<lambda>r. notna (icolor r) \<and> notna (gcolor r) \<and> icolor r \<noteq> gcolor r)
     [\<lparr>time = 1, group = None, individual = 1, gcolor = None, icolor = Some 1\<rparr>,
      \<lparr>time = 2, group = Some 1, individual = 1, gcolor = Some 2, icolor = Some 1\<rparr>,
      \<lparr>time = 3, group = Some 2, individual = 1, gcolor = Some 1, icolor = Some 1\<rparr>]))
     / rat_of_nat (length (filter (\<lambda>r. notna (icolor r))
     [\<lparr>time = 1, group = None, individual = 1, gcolor = None, icolor = Some 1\<rparr>,
      \<lparr>time = 2, group = Some 1, individual = 1, gcolor = Some 2, icolor = Some 1\<rparr>,
      \<lparr>time = 3, group = Some 2, individual = 1, gcolor = Some 1, icolor = Some 1\<rparr>])) = 1 / 3"
  by code_simp

text \<open>
  Claim C4. For an observation with a null community color, community\_size applies a
  defined fallback and lets no raw missing-key failure through. The code looks up
  \<^verbatim>\<open>size[t, c]\<close> for every row, and the lookup of a null color raises \<^verbatim>\<open>KeyError\<close>.
\<close>

theorem community_size_null_color_raises:
  "community_size
     [\<lparr>time = 1, group = Some 1, individual = 1, gcolor = Some 1, icolor = None\<rparr>]
   = Inl KeyError"
  by code_simp

text \<open>
  Claim C5. peer\_synchrony is the mean over the adjacent pairs of an individual, and a
  pair whose later subgroup has one member contributes \<open>0.0\<close>. Individual 1 is alone in
  group 1 at both times, so its only pair should contribute \<open>0.0\<close>; its first row has a
  null \<^verbatim>\<open>gcolor\<close>, the index has no entry for it, and the code raises \<^verbatim>\<open>KeyError\<close> at the
  lookup of \<^verbatim>\<open>members1\<close>.
\<close>

theorem peer_synchrony_unindexed_row_raises:
  "peer_synchrony
     [\<lparr>time = 1, group = Some 1, individual = 1, gcolor = None, icolor = Some 1\<rparr>,
      \<lparr>time = 2, group = Some 1, individual = 1, gcolor = Some 1, icolor = Some 1\<rparr>]
     (compute_subgroups
        [\<lparr>time = 1, group = Some 1, individual = 1, gcolor = None, icolor = Some 1\<rparr>,
         \<lparr>time = 2, group = Some 1, individual = 1, gcolor = Some 1, icolor = Some 1\<rparr>])
   = Inl KeyError"
  by code_simp



text \<open>
  Claim C7, as amended. For every individual that has at least one observation without a
  null field, group\_size is the mean, over exactly those observations, of the number of
  rows of that (time, group) in which no field is null. The function never raises and
  returns one entry per distinct individual, by ascending identifier.
\<close>

theorem group_size_complete_rows:
  assumes "k < length (group_keys df)"
    and "dropna (rows_of df (group_keys df ! k)) \<noteq> []"
  shows "\<exists>vs. group_size df = Inr vs \<and> length vs = length (group_keys df) \<and>
           vs ! k = Some (avg (map (\<lambda>r. of_nat (length (complete_members df (time r) (group r))))
                                   (dropna (rows_of df (group_keys df ! k)))))"
  using assms dropna_rows_of [OF assms(2)] by (simp add: group_size_eq mean_skipna_size_cell)

theorem group_size_complete_rows_witness:
  "(0::nat) < length (group_keys
     [\<lparr>time = 1, group = Some 1, individual = 1, gcolor = Some 1, icolor = Some 1\<rparr>,
      \<lparr>time = 1, group = Some 1, individual = 2, gcolor = None, icolor = Some 1\<rparr>])
   \<and> (\<exists>vs. group_size
     [\<lparr>time = 1, group = Some 1, individual = 1, gcolor = Some 1, icolor = Some 1\<rparr>,
      \<lparr>time = 1, group = Some 1, individual = 2, gcolor = None, icolor = Some 1\<rparr>] = Inr vs
      \<and> length vs = 2 \<and> vs ! 0 = Some 1)"
proof -
  let ?T = "[\<lparr>time = 1, group = Some 1, individual = 1, gcolor = Some 1, icolor = Some 1\<rparr>,
      \<lparr>time = 1, group = Some 1, individual = 2, gcolor = None, icolor = Some 1\<rparr>]"
  have a: "0 < length (group_keys ?T)" by code_simp
  have b: "dropna (rows_of ?T (group_keys ?T ! 0)) \<noteq> []" by code_simp
  have l: "length (group_keys ?T) = 2" by code_simp
  have v: "avg (map (\<lambda>r. of_nat (length (complete_members ?T (time r) (group r))))
                                   (dropna (rows_of ?T (group_keys ?T ! 0)))) = 1" by code_simp
  from group_size_complete_rows [OF a b] have "\<exists>vs. group_size ?T = Inr vs \<and> length vs = 2 \<and> vs ! 0 = Some 1"
    unfolding l v .
  with a show ?thesis by (rule conjI)
qed

text \<open>
  The claim as stated averages over the observations with a non-null group, counts every
  row of the (time, group), and gives \<open>0.0\<close> to an individual without qualifying
  observations. With two rows in one group, the second with a null \<^verbatim>\<open>gcolor\<close>, the claim
  gives both individuals the size \<open>2\<close>; the code gives the first \<open>1\<close> and the second
  the missing value.
\<close>

theorem group_size_drops_rows_with_nulls:
  "group_size
     [\<lparr>time = 1, group = Some 1, individual = 1, gcolor = Some 1, icolor = Some 1\<rparr>,
      \<lparr>time = 1, group = Some 1, individual = 2, gcolor = None, icolor = Some 1\<rparr>] = Inr [Some 1, None]
   \<and> spec_group_size
     [\<lparr>time = 1, group = Some 1, individual = 1, gcolor = Some 1, icolor = Some 1\<rparr>,
      \<lparr>time = 1, group = Some 1, individual = 2, gcolor = None, icolor = Some 1\<rparr>]
     [\<lparr>time = 1, group = Some 1, individual = 1, gcolor = Some 1, icolor = Some 1\<rparr>] = 2
   \<and> spec_group_size
     [\<lparr>time = 1, group = Some 1, individual = 1, gcolor = Some 1, icolor = Some 1\<rparr>,
      \<lparr>time = 1, group = Some 1, individual = 2, gcolor = None, icolor = Some 1\<rparr>]
     [\<lparr>time = 1, group = Some 1, individual = 2, gcolor = None, icolor = Some 1\<rparr>] = 2"
  by code_simp

text \<open>
  Claim C8. individual\_apparency returns \<open>0.0\<close>, without error, for an individual that
  has no non-null community color. The code looks up every distinct cell of the
  individual's \<^verbatim>\<open>icolor\<close> column, the null one included, and \<^verbatim>\<open>community_apparency\<close> has
  no entry for it: the lookup raises \<^verbatim>\<open>KeyError\<close>.
\<close>

theorem individual_apparency_null_color_raises:
  "individual_apparency
     [\<lparr>time = 1, group = Some 1, individual = 1, gcolor = Some 1, icolor = None\<rparr>]
   = Inl KeyError"
  by code_simp

text \<open>
  Claim C9, as amended. For every individual, cyclicity equals the number of maximal
  consecutive runs of its community-color sequence, delimited as in community\_stay (where
  every null cell is a run of its own), minus the number of its observations with a null
  community color, minus the number of distinct non-null community colors it has held:
  the runs of null cells are not counted. This value is never negative, and it is \<open>0\<close>
  for an individual whose community color is the same in all its observations.
\<close>

theorem cyclicity_non_null_runs:
  "cyclicity df =
     map (\<lambda>i. int (length (stay_runs (map icolor (rows_of df i))))
              - int (length (filter isnull (map icolor (rows_of df i))))
              - int (nunique (map icolor (rows_of df i))))
         (group_keys df)
   \<and> (\<forall>v \<in> set (cyclicity df). 0 \<le> v)
   \<and> (\<forall>i \<in> set (group_keys df).
         (\<forall>r \<in> set (rows_of df i). icolor r = k) \<longrightarrow> cyclicity_value (rows_of df i) = 0)"
proof (intro conjI ballI impI)
  show "cyclicity df =
     map (\<lambda>i. int (length (stay_runs (map icolor (rows_of df i))))
              - int (length (filter isnull (map icolor (rows_of df i))))
              - int (nunique (map icolor (rows_of df i))))
         (group_keys df)"
    unfolding cyclicity_def groupby_individual_def map_map
  proof (rule map_cong [OF refl])
    fix i assume "i \<in> set (group_keys df)"
    then have "map icolor (rows_of df i) \<noteq> []"
      by (simp add: rows_of_nonempty)
    from runs_minus_nulls [OF this]
    show "(cyclicity_value \<circ> rows_of df) i =
        int (length (stay_runs (map icolor (rows_of df i))))
              - int (length (filter isnull (map icolor (rows_of df i))))
              - int (nunique (map icolor (rows_of df i)))"
      by (simp add: cyclicity_value_starts)
  qed
next
  fix v assume "v \<in> set (cyclicity df)"
  then obtain grp where "v = cyclicity_value grp"
    by (auto simp: cyclicity_def)
  then show "0 \<le> v"
    using nunique_le_starts [of "map icolor grp"] by (simp add: cyclicity_value_starts)
next
  fix i assume "\<forall>r \<in> set (rows_of df i). icolor r = k"
  then have "\<forall>c \<in> set (map icolor (rows_of df i)). c = k" by simp
  from constant_colors [OF this] show "cyclicity_value (rows_of df i) = 0"
    by (simp add: cyclicity_value_starts)
qed

theorem cyclicity_non_null_runs_witness:
  "cyclicity
     [\<lparr>time = 1, group = Some 1, individual = 1, gcolor = Some 1, icolor = Some 1\<rparr>,
      \<lparr>time = 2, group = Some 1, individual = 1, gcolor = Some 1, icolor = Some 2\<rparr>,
      \<lparr>time = 3, group = Some 1, individual = 1, gcolor = Some 1, icolor = Some 1\<rparr>] = [3 - 0 - 2]
   \<and> 0 \<le> hd (cyclicity
     [\<lparr>time = 1, group = Some 1, individual = 1, gcolor = Some 1, icolor = Some 1\<rparr>,
      \<lparr>time = 2, group = Some 1, individual = 1, gcolor = Some 1, icolor = Some 2\<rparr>,
      \<lparr>time = 3, group = Some 1, individual = 1, gcolor = Some 1, icolor = Some 1\<rparr>])
   \<and> cyclicity_value (rows_of
     [\<lparr>time = 1, group = Some 1, individual = 1, gcolor = Some 1, icolor = Some 1\<rparr>,
      \<lparr>time = 2, group = Some 2, individual = 1, gcolor = Some 1, icolor = Some 1\<rparr>] 1) = 0"
proof -
  let ?T = "[\<lparr>time = 1, group = Some 1, individual = 1, gcolor = Some 1, icolor = Some 1\<rparr>,
      \<lparr>time = 2, group = Some 1, individual = 1, gcolor = Some 1, icolor = Some 2\<rparr>,
      \<lparr>time = 3, group = Some 1, individual = 1, gcolor = Some 1, icolor = Some 1\<rparr>]"
  let ?U = "[\<lparr>time = 1, group = Some 1, individual = 1, gcolor = Some 1, icolor = Some 1\<rparr>,
      \<lparr>time = 2, group = Some 2, individual = 1, gcolor = Some 1, icolor = Some (1::nat)\<rparr>]"
  note t = cyclicity_non_null_runs [of ?T "Some 1"]
  note u = cyclicity_non_null_runs [of ?U "Some 1"]
  have a: "cyclicity ?T = [3 - 0 - 2]"
    by (rule trans [OF conjunct1 [OF t]]) code_simp
  have "hd (cyclicity ?T) \<in> set (cyclicity ?T)" by code_simp
  with t have b: "0 \<le> hd (cyclicity ?T)" by blast
  have "1 \<in> set (group_keys ?U)" "\<forall>r \<in> set (rows_of ?U 1). icolor r = Some 1"
    by code_simp+
  with u have c: "cyclicity_value (rows_of ?U 1) = 0" by blast
  from a b c show ?thesis by simp
qed

text \<open>
  The claim as stated counts all the runs of community\_stay. The color sequence null, 1,
  null has three such runs and one distinct color (two when the null cell counts as a
  color), so the claim gives \<open>2\<close> (or \<open>1\<close>); the code gives \<open>0\<close>.
\<close>

theorem cyclicity_skips_null_runs:
  "cyclicity
     [\<lparr>time = 1, group = Some 1, individual = 1, gcolor = Some 1, icolor = None\<rparr>,
      \<lparr>time = 2, group = Some 1, individual = 1, gcolor = Some 1, icolor = Some 1\<rparr>,
      \<lparr>time = 3, group = Some 1, individual = 1, gcolor = Some 1, icolor = None\<rparr>] = [0]
   \<and> int (length (stay_runs [None, Some 1, None])) - int (nunique [None, Some 1, None]) = 2
   \<and> int (length (stay_runs [None, Some 1, None]))
       - int (length (remdups [None, Some (1::nat), None])) = 1"
  by code_simp

text \<open>
  Claim C10. The subgroup index is built only from the rows in which no field is null: the
  entry of a key is the set of the individuals of those rows that have the key, and a key
  that no such row has is absent. The guard of peer\_synchrony tests the groups only, so
  the lookup fails with \<^verbatim>\<open>KeyError\<close> on a table where an individual has two adjacent
  observations with non-null groups and a null community color in one of them, and on a
  table where a row was left out of the index for its null \<^verbatim>\<open>gcolor\<close>.
\<close>

theorem compute_subgroups_complete_rows_only:
  "compute_subgroups df k =
     (let ms = map individual (filter (\<lambda>r. notna_row r \<and> (time r, group r, icolor r) = k) df)
      in if ms = [] then None else Some (set ms))
   \<and> peer_synchrony
       [\<lparr>time = 1, group = Some 1, individual = 1, gcolor = Some 1, icolor = None\<rparr>,
        \<lparr>time = 2, group = Some 1, individual = 1, gcolor = Some 1, icolor = Some 1\<rparr>]
       (compute_subgroups
         [\<lparr>time = 1, group = Some 1, individual = 1, gcolor = Some 1, icolor = None\<rparr>,
          \<lparr>time = 2, group = Some 1, individual = 1, gcolor = Some 1, icolor = Some 1\<rparr>])
     = Inl KeyError
   \<and> peer_synchrony
       [\<lparr>time = 1, group = Some 1, individual = 1, gcolor = Some 1, icolor = Some 1\<rparr>,
        \<lparr>time = 1, group = Some 1, individual = 2, gcolor = Some 1, icolor = Some 1\<rparr>,
        \<lparr>time = 2, group = Some 2, individual = 1, gcolor = Some 1, icolor = Some 1\<rparr>,
        \<lparr>time = 2, group = Some 3, individual = 2, gcolor = None, icolor = Some 1\<rparr>]
       (compute_subgroups
         [\<lparr>time = 1, group = Some 1, individual = 1, gcolor = Some 1, icolor = Some 1\<rparr>,
          \<lparr>time = 1, group = Some 1, individual = 2, gcolor = Some 1, icolor = Some 1\<rparr>,
          \<lparr>time = 2, group = Some 2, individual = 1, gcolor = Some 1, icolor = Some 1\<rparr>,
          \<lparr>time = 2, group = Some 3, individual = 2, gcolor = None, icolor = Some 1\<rparr>])
     = Inl KeyError"
proof (intro conjI)
  show "compute_subgroups df k =
     (let ms = map individual (filter (\<lambda>r. notna_row r \<and> (time r, group r, icolor r) = k) df)
      in if ms = [] then None else Some (set ms))"
    by (rule compute_subgroups_eq)
qed code_simp+

end
